theory Spec2Isabelle
  imports Main "HOL-Library.Word" "HOL-Library.Sublist"
begin

section \<open>Text output\<close>

text \<open>
  The source builds every string with \<^verbatim>\<open>stringstream\<close> and \<^verbatim>\<open><<\<close>. A
  string is a list of bytes; \<^verbatim>\<open>"\n"\<close> is the byte 10, a backslash is the byte 92 and
  a single quote is the byte 39.
\<close>

definition NUL :: char where
  "NUL = CHR 0x00"

definition squote :: char where
  "squote = CHR 0x27"

definition backslash :: char where
  "backslash = CHR 0x5C"

definition ln :: "string \<Rightarrow> string" where
  "ln s = s @ [CHR 0x0A]"

definition digit_char :: "nat \<Rightarrow> char" where
  "digit_char d = ''0123456789'' ! d"

text \<open>\<^verbatim>\<open>ss << n\<close> for an unsigned integer: its decimal digits, no padding.\<close>

fun dec_nat :: "nat \<Rightarrow> string" where
  "dec_nat n =
     (if n < 10 then [digit_char n] else dec_nat (n div 10) @ [digit_char (n mod 10)])"

declare dec_nat.simps [simp del]

text \<open>\<^verbatim>\<open>ss << i\<close> for a signed \<^verbatim>\<open>int\<close> (\<^verbatim>\<open>getpid()\<close>, a descriptor).\<close>

definition dec_int :: "int \<Rightarrow> string" where
  "dec_int i = (if i < 0 then CHR ''-'' # dec_nat (nat (- i)) else dec_nat (nat i))"

text \<open>
  A \<^verbatim>\<open>const char*\<close> read as a C string: the bytes of the memory it points to, up to
  the first NUL.
\<close>

definition c_string :: "string \<Rightarrow> string" where
  "c_string buf = takeWhile (\<lambda>c. c \<noteq> NUL) buf"

section \<open>The macro script: \<^verbatim>\<open>gdb_rr_macros\<close>\<close>

text \<open>
  The fixed text that \<^verbatim>\<open>gdb_rr_macros\<close> streams after
  \<^verbatim>\<open>GdbCommandHandler::gdb_macros()\<close>, one list element for each string literal
  of the source, in the source's order.
\<close>

definition rr_macro_pieces :: "string list" where
  "rr_macro_pieces =
   [ ln ''define restart'',
     ln ''  run c$arg0'',
     ln ''end'',
     ln ''document restart'',
     ln ''restart at checkpoint N'',
     ln ''checkpoints are created with the 'checkpoint' command'',
     ln ''end'',
     ln ''define seek-ticks'',
     ln ''  run t$arg0'',
     ln ''end'',
     ln ''document seek-ticks'',
     ln ''restart at given ticks value'',
     ln ''end'',
     ln ''define jump'',
     ln ''  rr-denied jump'',
     ln ''end'',
     ln ''define hook-run'',
     ln ''  rr-hook-run'',
     ln ''end'',
     ln ''define hookpost-continue'',
     ln ''  rr-set-suppress-run-hook 1'',
     ln ''end'',
     ln ''define hookpost-step'',
     ln ''  rr-set-suppress-run-hook 1'',
     ln ''end'',
     ln ''define hookpost-stepi'',
     ln ''  rr-set-suppress-run-hook 1'',
     ln ''end'',
     ln ''define hookpost-next'',
     ln ''  rr-set-suppress-run-hook 1'',
     ln ''end'',
     ln ''define hookpost-nexti'',
     ln ''  rr-set-suppress-run-hook 1'',
     ln ''end'',
     ln ''define hookpost-finish'',
     ln ''  rr-set-suppress-run-hook 1'',
     ln ''end'',
     ln ''define hookpost-reverse-continue'',
     ln ''  rr-set-suppress-run-hook 1'',
     ln ''end'',
     ln ''define hookpost-reverse-step'',
     ln ''  rr-set-suppress-run-hook 1'',
     ln ''end'',
     ln ''define hookpost-reverse-stepi'',
     ln ''  rr-set-suppress-run-hook 1'',
     ln ''end'',
     ln ''define hookpost-reverse-finish'',
     ln ''  rr-set-suppress-run-hook 1'',
     ln ''end'',
     ln ''define hookpost-run'',
     ln ''  rr-set-suppress-run-hook 0'',
     ln ''end'',
     ln ''set unwindonsignal on'',
     ln ''handle SIGURG stop'',
     ln ''set prompt (rr) '',
     ln ''python'',
     ln ''import re'',
     ''m = re.compile(r'',
     [squote] @ ''[^0-9]*([0-9]+)'' @ [backslash] @ ''.([0-9]+)('' @ [backslash]
       @ ''.([0-9]+))?'' @ [squote],
     ln '').match(gdb.VERSION)'',
     ln ''ver = int(m.group(1))*10000 + int(m.group(2))*100'',
     ln ''if m.group(4):'',
     ln ''    ver = ver + int(m.group(4))'',
     ln [],
     ln ''if ver == 71100:'',
     ''    gdb.write('',
     [squote] @ ''This version of gdb (7.11.0) has known bugs that break rr. '',
     ln (''Install 7.11.1 or later.'' @ [backslash] @ ''n', gdb.STDERR)''),
     ln [],
     ln ''if ver < 71101:'',
     ln ''    gdb.execute('set target-async 0')'',
     ln ''    gdb.execute('maint set target-async 0')'',
     ln ''end'' ]"

text \<open>
  \<^verbatim>\<open>static const string& gdb_rr_macros()\<close>. The function-local \<^verbatim>\<open>static string s\<close>
  is the state, passed in and returned; \<open>gdb_macros\<close> is what
  \<^verbatim>\<open>GdbCommandHandler::gdb_macros()\<close> returns (that class is outside this file), read
  only when \<open>s\<close> is empty. The result is the pair of the returned text and the new
  \<open>s\<close>.
\<close>

definition gdb_rr_macros :: "string \<Rightarrow> string \<Rightarrow> string \<times> string" where
  "gdb_rr_macros gdb_macros s =
     (let s' = (if s = [] then gdb_macros @ concat rr_macro_pieces else s) in (s', s'))"

section \<open>Argument sequences\<close>

text \<open>
  \<^verbatim>\<open>struct DebuggerParams\<close>: the two \<^verbatim>\<open>char\<close> arrays as the bytes they hold,
  \<^verbatim>\<open>short port\<close> as a 16-bit word (the callee takes it as \<^verbatim>\<open>unsigned short\<close>,
  the same bits).
\<close>

record DebuggerParams =
  exe_image :: string
  host :: string
  port :: "16 word"

text \<open>
  The struct in memory: the \<^verbatim>\<open>PATH_MAX\<close> bytes of \<open>exe_image\<close>, the 16 bytes of
  \<open>host\<close>, then the two bytes of \<open>port\<close>, low byte first (Linux on x86 and AArch64),
  with no padding.
\<close>

definition port_bytes :: "16 word \<Rightarrow> string" where
  "port_bytes p = [char_of (unat p mod 256), char_of (unat p div 256)]"

text \<open>
  \<^verbatim>\<open>string(params.host)\<close> and \<^verbatim>\<open>args.push_back(params.exe_image)\<close> build a string from
  a pointer to the array: the read does not stop at the end of the array, it runs on
  through the fields that follow until a NUL. A read that finds no NUL in the struct
  would leave the object, which C++ leaves undefined; the model ends at the last byte
  of the struct.
\<close>

definition params_host :: "DebuggerParams \<Rightarrow> string" where
  "params_host params = c_string (host params @ port_bytes (port params))"

definition params_exe_image :: "DebuggerParams \<Rightarrow> string" where
  "params_exe_image params =
     c_string (exe_image params @ host params @ port_bytes (port params))"

text \<open>\<^verbatim>\<open>push_default_gdb_options\<close>; \<^verbatim>\<open>vec.push_back(x)\<close> is \<open>vec @ [x]\<close>.\<close>

definition push_default_gdb_options :: "string list \<Rightarrow> bool \<Rightarrow> string list" where
  "push_default_gdb_options vec serve_files =
     (let vec = vec @ [''-l''];
          vec = vec @ [''10000'']
      in if \<not> serve_files then (vec @ [''-ex'']) @ [''set sysroot /''] else vec)"

text \<open>
  The text \<^verbatim>\<open>push_gdb_target_remote_cmd\<close> streams into \<^verbatim>\<open>ss\<close>; the port is an
  \<^verbatim>\<open>unsigned short\<close>, streamed in decimal.
\<close>

definition target_remote_cmd :: "string \<Rightarrow> 16 word \<Rightarrow> string" where
  "target_remote_cmd h p = ''target extended-remote '' @ h @ '':'' @ dec_nat (unat p)"

text \<open>\<^verbatim>\<open>push_gdb_target_remote_cmd\<close>.\<close>

definition push_gdb_target_remote_cmd :: "string list \<Rightarrow> string \<Rightarrow> 16 word \<Rightarrow> string list" where
  "push_gdb_target_remote_cmd vec h p = (vec @ [''-ex'']) @ [target_remote_cmd h p]"

text \<open>\<^verbatim>\<open>to_shell_string\<close>: the loop over \<open>args\<close> appends \<^verbatim>\<open>'a' \<close> for each element.\<close>

fun to_shell_string_from :: "string \<Rightarrow> string list \<Rightarrow> string" where
  "to_shell_string_from ss [] = ss"
| "to_shell_string_from ss (a # args) =
     to_shell_string_from (ss @ [squote] @ a @ [squote] @ '' '') args"

definition to_shell_string :: "string list \<Rightarrow> string" where
  "to_shell_string args = to_shell_string_from [] args"

text \<open>
  \<^verbatim>\<open>debugger_launch_command\<close>. \<open>exe\<close> is \<^verbatim>\<open>t->vm()->exe_image()\<close> (the task is
  outside this file). The result is the returned vector and the new value of the global
  \<^verbatim>\<open>saved_debugger_launch_command\<close>.
\<close>

definition debugger_launch_command ::
  "string \<Rightarrow> string \<Rightarrow> 16 word \<Rightarrow> bool \<Rightarrow> string \<Rightarrow> string list \<times> string" where
  "debugger_launch_command exe h p serve_files debugger_name =
     (let cmd = [debugger_name];
          cmd = push_default_gdb_options cmd serve_files;
          cmd = push_gdb_target_remote_cmd cmd h p;
          cmd = cmd @ [exe]
      in (cmd, to_shell_string cmd))"

text \<open>
  \<^verbatim>\<open>strncmp(s1, s2, n)\<close> on C strings: at most \<open>n\<close> bytes are compared, as unsigned
  bytes, and the comparison stops after a NUL. The end of a list is the terminating NUL
  of \<^verbatim>\<open>c_str()\<close>. The result is the sign of the difference.
\<close>

fun strncmp :: "string \<Rightarrow> string \<Rightarrow> nat \<Rightarrow> int" where
  "strncmp s1 s2 0 = 0"
| "strncmp s1 s2 (Suc n) =
     (let c1 = (case s1 of [] \<Rightarrow> NUL | c # _ \<Rightarrow> c);
          c2 = (case s2 of [] \<Rightarrow> NUL | c # _ \<Rightarrow> c)
      in if c1 \<noteq> c2 then (if (of_char c1 :: nat) < of_char c2 then - 1 else 1)
         else if c1 = NUL then 0
         else strncmp (tl s1) (tl s2) n)"

text \<open>\<^verbatim>\<open>needs_target\<close>: \<^verbatim>\<open>!strncmp(option.c_str(), "continue", option.size())\<close>.\<close>

definition needs_target :: "string \<Rightarrow> bool" where
  "needs_target option = (strncmp option ''continue'' (length option) = 0)"

text \<open>
  The loop of \<^verbatim>\<open>launch_debugger\<close> over the passthrough options, from index \<open>i\<close>, on the
  state \<open>(args, did_set_remote)\<close>.
\<close>

function push_options ::
  "string list \<Rightarrow> string \<Rightarrow> 16 word \<Rightarrow> nat \<Rightarrow> string list \<times> bool \<Rightarrow> string list \<times> bool" where
  "push_options options h p i (args, did_set_remote) =
     (if i < length options then
        (if \<not> did_set_remote \<and> options ! i = ''-ex'' \<and> i + 1 < length options
            \<and> needs_target (options ! (i + 1))
         then push_options options h p (i + 1)
                (push_gdb_target_remote_cmd args h p @ [options ! i], True)
         else push_options options h p (i + 1) (args @ [options ! i], did_set_remote))
      else (args, did_set_remote))"
  by pat_completeness auto
termination
  by (relation "measure (\<lambda>(options, h, p, i, st). length options - i)") auto

declare push_options.simps [simp del]

text \<open>
  The argument vector \<^verbatim>\<open>launch_debugger\<close> builds once \<open>params\<close> is read:
  \<open>gdb_command_file\<close> is the path \<^verbatim>\<open>create_gdb_command_file\<close> returned.
\<close>

definition launch_args ::
  "DebuggerParams \<Rightarrow> string \<Rightarrow> string \<Rightarrow> string list \<Rightarrow> bool \<Rightarrow> string list" where
  "launch_args params debugger_file_path gdb_command_file options serve_files =
     (let args = [debugger_file_path];
          args = push_default_gdb_options args serve_files;
          args = args @ [''-x''];
          args = args @ [gdb_command_file];
          (args, did_set_remote) =
             push_options options (params_host params) (port params) 0 (args, False);
          args = (if \<not> did_set_remote
                  then push_gdb_target_remote_cmd args (params_host params) (port params)
                  else args)
      in args @ [params_exe_image params])"

section \<open>The bootstrap: \<^verbatim>\<open>launch_debugger\<close>\<close>

text \<open>
  How a call of \<^verbatim>\<open>launch_debugger\<close> ends: it returns to its caller, the process is
  terminated with a diagnostic, or \<^verbatim>\<open>execvpe\<close> replaces the process image (path,
  argument vector, environment) and the call never returns.
\<close>

datatype outcome =
  Returned
| Terminated string
| Replaced string "string list" "string list"

text \<open>
  Modelled from the spec: the macros \<^verbatim>\<open>FATAL()\<close> and \<^verbatim>\<open>CLEAN_FATAL()\<close> of
  \<^verbatim>\<open>log.h\<close>, which is not among the sources. The spec calls both outcomes fatal:
  the process terminates with the streamed diagnostic and nothing is propagated.
\<close>

definition FATAL :: "string \<Rightarrow> outcome" where
  "FATAL msg = Terminated msg"

definition CLEAN_FATAL :: "string \<Rightarrow> outcome" where
  "CLEAN_FATAL msg = Terminated msg"

text \<open>
  Modelled from the spec: the macro \<^verbatim>\<open>DEBUG_ASSERT(cond)\<close> of \<^verbatim>\<open>log.h\<close>, which is
  not among the sources. The spec calls a record of the wrong size a fatal protocol
  violation: a false condition terminates the process, a true one does nothing. The
  diagnostic is the text of the condition.
\<close>

definition DEBUG_ASSERT :: "bool \<Rightarrow> string \<Rightarrow> outcome option" where
  "DEBUG_ASSERT cond text = (if cond then None else Some (Terminated text))"

text \<open>
  What one call of \<^verbatim>\<open>read(params_pipe_fd, &params, sizeof(params))\<close> gives: the
  returned count, \<^verbatim>\<open>errno\<close>, and what \<open>params\<close> holds afterwards.
\<close>

record read_result =
  nread :: int
  errno :: int
  buf :: DebuggerParams

text \<open>
  What the operating system and the rest of the program supply to one call of
  \<^verbatim>\<open>launch_debugger\<close>.
\<close>

record os =
  gdb_macros :: string  \<comment> \<open>\<^verbatim>\<open>GdbCommandHandler::gdb_macros()\<close>\<close>
  temp_fd :: int  \<comment> \<open>the descriptor of \<^verbatim>\<open>create_temporary_file\<close>\<close>
  pid :: int  \<comment> \<open>\<^verbatim>\<open>getpid()\<close>\<close>
  write_result :: int  \<comment> \<open>what \<^verbatim>\<open>write\<close> returns\<close>
  read_results :: "nat \<Rightarrow> read_result"  \<comment> \<open>the \<open>k\<close>-th call of \<^verbatim>\<open>read\<close>\<close>
  current_env :: "string list"  \<comment> \<open>\<^verbatim>\<open>current_env()\<close>\<close>
  execvpe_succeeds :: bool

text \<open>
  The state of the process that the functions here change: the \<^verbatim>\<open>static string s\<close>
  of \<^verbatim>\<open>gdb_rr_macros\<close> and the bytes written to its descriptors.
\<close>

record process =
  macros_s :: string
  fd_contents :: "int \<Rightarrow> string option"

text \<open>Linux values of the constants of \<^verbatim>\<open>limits.h\<close> and \<^verbatim>\<open>errno.h\<close>.\<close>

definition PATH_MAX :: int where
  "PATH_MAX = 4096"

definition EINTR :: int where
  "EINTR = 4"

text \<open>\<^verbatim>\<open>sizeof(DebuggerParams)\<close>: \<^verbatim>\<open>char[PATH_MAX]\<close>, \<^verbatim>\<open>char[16]\<close>, \<^verbatim>\<open>short\<close>.\<close>

definition sizeof_params :: int where
  "sizeof_params = PATH_MAX + 16 + 2"

text \<open>The path \<^verbatim>\<open>create_gdb_command_file\<close> streams into \<^verbatim>\<open>procfile\<close>.\<close>

definition procfile :: "int \<Rightarrow> int \<Rightarrow> string" where
  "procfile p fd = ''/proc/'' @ dec_int p @ ''/fd/'' @ dec_int fd"

text \<open>
  \<^verbatim>\<open>create_gdb_command_file\<close>: \<^verbatim>\<open>write\<close> puts the first \<open>written\<close> bytes of
  \<open>macros\<close> into the descriptor; any other count than the length is fatal.
\<close>

definition create_gdb_command_file :: "os \<Rightarrow> process \<Rightarrow> string \<Rightarrow> (outcome + string) \<times> process" where
  "create_gdb_command_file w st macros =
     (let fd = temp_fd w;
          len = int (length macros);
          written = write_result w;
          st = st\<lparr>fd_contents := (fd_contents st)(fd \<mapsto> take (nat written) macros)\<rparr>
      in if written \<noteq> len then (Inl (FATAL ''Failed to write gdb command file''), st)
         else (Inr (procfile (pid w) fd), st))"

text \<open>
  The \<^verbatim>\<open>while (true)\<close> loop of \<^verbatim>\<open>launch_debugger\<close>, from the \<open>k\<close>-th read on:
  \<open>Inl ()\<close> is the \<^verbatim>\<open>return\<close> on a closed pipe, \<open>Inr r\<close> the \<^verbatim>\<open>break\<close> with the
  last read \<open>r\<close>. A pipe that interrupts every read keeps the loop running: \<open>None\<close>.
\<close>

partial_function (option) read_params :: "(nat \<Rightarrow> read_result) \<Rightarrow> nat \<Rightarrow> (unit + read_result) option" where
  "read_params rd k =
     (let r = rd k
      in if nread r = 0 then Some (Inl ())
         else if nread r \<noteq> - 1 \<or> errno r \<noteq> EINTR then Some (Inr r)
         else read_params rd (Suc k))"

text \<open>
  \<^verbatim>\<open>launch_debugger\<close>. \<open>None\<close>: the read loop never ends. The \<^verbatim>\<open>LOG(debug)\<close> line
  has no effect on the result and is left out.
\<close>

definition launch_debugger ::
  "os \<Rightarrow> process \<Rightarrow> string \<Rightarrow> string list \<Rightarrow> bool \<Rightarrow> (outcome \<times> process) option" where
  "launch_debugger w st debugger_file_path options serve_files =
     (let (macros, s) = gdb_rr_macros (gdb_macros w) (macros_s st);
          st = st\<lparr>macros_s := s\<rparr>
      in case create_gdb_command_file w st macros of
           (Inl fatal, st) \<Rightarrow> Some (fatal, st)
         | (Inr gdb_command_file, st) \<Rightarrow>
             (case read_params (read_results w) 0 of
                None \<Rightarrow> None
              | Some (Inl _) \<Rightarrow> Some (Returned, st)
              | Some (Inr r) \<Rightarrow>
                  (case DEBUG_ASSERT (nread r = sizeof_params) ''nread == sizeof(params)'' of
                     Some fatal \<Rightarrow> Some (fatal, st)
                   | None \<Rightarrow>
                       (let args = launch_args (buf r) debugger_file_path gdb_command_file
                                     options serve_files;
                            env = current_env w;
                            env = env @ [''GDB_UNDER_RR=1'']
                        in if execvpe_succeeds w
                           then Some (Replaced debugger_file_path args env, st)
                           else Some (CLEAN_FATAL (''Failed to exec '' @ debugger_file_path @ ''.''),
                                      st)))))"


section \<open>Notions the properties are stated with\<close>

text \<open>
  The test of the option loop at index \<open>i\<close>, without the flag: an option \<^verbatim>\<open>-ex\<close>
  followed by one that \<open>needs_target\<close> accepts.
\<close>

definition is_resume_pair :: "string list \<Rightarrow> nat \<Rightarrow> bool" where
  "is_resume_pair xs i = (i + 1 < length xs \<and> xs ! i = ''-ex'' \<and> needs_target (xs ! (i + 1)))"

text \<open>The pair as the specification words it: \<^verbatim>\<open>-ex\<close> followed by exactly \<^verbatim>\<open>continue\<close>.\<close>

definition is_continue_pair :: "string list \<Rightarrow> nat \<Rightarrow> bool" where
  "is_continue_pair xs i = (i + 1 < length xs \<and> xs ! i = ''-ex'' \<and> xs ! (i + 1) = ''continue'')"

text \<open>How often \<open>a\<close> is immediately followed by \<open>b\<close> in a sequence.\<close>

fun count_adjacent :: "'a \<Rightarrow> 'a \<Rightarrow> 'a list \<Rightarrow> nat" where
  "count_adjacent a b (x # y # zs) =
     (if x = a \<and> y = b then 1 else 0) + count_adjacent a b (y # zs)"
| "count_adjacent a b [x] = 0"
| "count_adjacent a b [] = 0"

text \<open>
  The reference tokenizer of the quoting round trip (the repository has none): the word
  splitting of a POSIX shell restricted to blanks, single quotes, double quotes and
  backslash escapes. \<open>None\<close> is an unterminated quote or escape.
\<close>

datatype lex_mode = Blank | Bare | Single | Double | Esc | DEsc

definition is_blank :: "char \<Rightarrow> bool" where
  "is_blank c = (c = CHR '' '' \<or> c = CHR 0x09 \<or> c = CHR 0x0A \<or> c = CHR 0x0D)"

definition dquote :: char where
  "dquote = CHR 0x22"

fun sh_words :: "lex_mode \<Rightarrow> string \<Rightarrow> string \<Rightarrow> string list option" where
  "sh_words Blank w [] = Some []"
| "sh_words Bare w [] = Some [w]"
| "sh_words m w [] = None"
| "sh_words Blank w (c # cs) =
     (if is_blank c then sh_words Blank [] cs
      else if c = squote then sh_words Single [] cs
      else if c = dquote then sh_words Double [] cs
      else if c = backslash then sh_words Esc [] cs
      else sh_words Bare [c] cs)"
| "sh_words Bare w (c # cs) =
     (if is_blank c then map_option ((#) w) (sh_words Blank [] cs)
      else if c = squote then sh_words Single w cs
      else if c = dquote then sh_words Double w cs
      else if c = backslash then sh_words Esc w cs
      else sh_words Bare (w @ [c]) cs)"
| "sh_words Single w (c # cs) =
     (if c = squote then sh_words Bare w cs else sh_words Single (w @ [c]) cs)"
| "sh_words Double w (c # cs) =
     (if c = dquote then sh_words Bare w cs
      else if c = backslash then sh_words DEsc w cs
      else sh_words Double (w @ [c]) cs)"
| "sh_words Esc w (c # cs) = sh_words Bare (w @ [c]) cs"
| "sh_words DEsc w (c # cs) =
     (if c = dquote \<or> c = backslash then sh_words Double (w @ [c]) cs
      else sh_words Double (w @ [backslash, c]) cs)"

definition shell_tokenize :: "string \<Rightarrow> string list option" where
  "shell_tokenize s = sh_words Blank [] s"

section \<open>The option loop\<close>

text \<open>
  Once the flag is set the loop copies the remaining options; while no pair is met it
  copies them too; at the first pair it pushes the directive and sets the flag.
\<close>

lemma push_options_done:
  "push_options opts h p i (args, True) = (args @ drop i opts, True)"
proof (induction "length opts - i" arbitrary: i args)
  case 0
  then show ?case by (simp add: push_options.simps)
next
  case (Suc n)
  then have lt: "i < length opts" by simp
  from Suc have n: "n = length opts - Suc i" by simp
  show ?case
    using lt Suc.hyps(1) [OF n, of "args @ [opts ! i]"]
    by (subst push_options.simps) (simp add: Cons_nth_drop_Suc)
qed

lemma push_options_none:
  "\<forall>j\<ge>i. \<not> is_resume_pair opts j \<Longrightarrow>
   push_options opts h p i (args, False) = (args @ drop i opts, False)"
proof (induction "length opts - i" arbitrary: i args)
  case 0
  then show ?case by (simp add: push_options.simps)
next
  case (Suc n)
  then have lt: "i < length opts" by simp
  from Suc have n: "n = length opts - Suc i" by simp
  have no: "\<not> is_resume_pair opts i" using Suc.prems by simp
  have rest: "\<forall>j\<ge>Suc i. \<not> is_resume_pair opts j" using Suc.prems by simp
  show ?case
    using lt no Suc.hyps(1) [OF n rest, of "args @ [opts ! i]"]
    by (subst push_options.simps) (auto simp: Cons_nth_drop_Suc is_resume_pair_def)
qed

lemma push_options_first:
  "i \<le> k \<Longrightarrow> is_resume_pair opts k \<Longrightarrow> \<forall>j. i \<le> j \<and> j < k \<longrightarrow> \<not> is_resume_pair opts j \<Longrightarrow>
   push_options opts h p i (args, False) =
     (args @ take (k - i) (drop i opts) @ push_gdb_target_remote_cmd [] h p @ drop k opts, True)"
proof (induction "k - i" arbitrary: i args)
  case 0
  then have ik: "i = k" by simp
  have lt: "k < length opts" using 0 by (simp add: is_resume_pair_def)
  have ex: "opts ! k = ''-ex''" using 0 by (simp add: is_resume_pair_def)
  have dk: "drop k opts = ''-ex'' # drop (Suc k) opts"
    using Cons_nth_drop_Suc [OF lt] ex by simp
  show ?case
    using 0 lt unfolding ik
    by (subst push_options.simps)
       (simp add: is_resume_pair_def push_options_done push_gdb_target_remote_cmd_def dk)
next
  case (Suc n)
  then have ik: "i < k" by simp
  have lt: "i < length opts" using Suc.prems ik by (simp add: is_resume_pair_def)
  have no: "\<not> is_resume_pair opts i" using Suc.prems ik by simp
  have n: "n = k - Suc i" using Suc by simp
  have le: "Suc i \<le> k" using ik by simp
  have rest: "\<forall>j. Suc i \<le> j \<and> j < k \<longrightarrow> \<not> is_resume_pair opts j" using Suc.prems by simp
  have tk: "take (k - i) (drop i opts) = opts ! i # take (k - Suc i) (drop (Suc i) opts)"
    using ik lt by (metis Cons_nth_drop_Suc Suc_diff_Suc take_Suc_Cons)
  show ?case
    using lt no Suc.hyps(1) [OF n le Suc.prems(2) rest, of "args @ [opts ! i]"]
    by (subst push_options.simps) (auto simp: tk is_resume_pair_def)
qed

section \<open>The shape of the bootstrap sequence\<close>

lemma first_resume_pair_exists:
  assumes "is_resume_pair opts j"
  shows "\<exists>k. is_resume_pair opts k \<and> (\<forall>i<k. \<not> is_resume_pair opts i)"
proof -
  let ?k = "LEAST k. is_resume_pair opts k"
  have "is_resume_pair opts ?k" using assms by (rule LeastI)
  moreover have "\<forall>i<?k. \<not> is_resume_pair opts i" using not_less_Least by blast
  ultimately show ?thesis by blast
qed

lemma c_string_stops: "NUL \<in> set xs \<Longrightarrow> c_string (xs @ ys) = c_string xs"
  by (simp add: c_string_def takeWhile_append1)

lemma params_host_terminated: "NUL \<in> set (host P) \<Longrightarrow> params_host P = c_string (host P)"
  by (simp add: params_host_def c_string_stops)

lemma params_exe_image_terminated:
  "NUL \<in> set (exe_image P) \<Longrightarrow> params_exe_image P = c_string (exe_image P)"
  by (simp add: params_exe_image_def c_string_stops)

text \<open>
  A host array with no NUL: the string runs on into the port, whose high byte ends it.
\<close>

lemma params_host_runs_into_port:
  "params_host \<lparr>exe_image = ''/bin/ls'' @ replicate 4089 NUL, host = ''AAAAAAAAAAAAAAAA'',
       port = 57\<rparr> = ''AAAAAAAAAAAAAAAA9''"
  by (simp add: params_host_def c_string_def port_bytes_def char_of_def bit_iff_odd NUL_def)

lemma launch_args_first:
  assumes "is_resume_pair opts k" and "\<forall>j<k. \<not> is_resume_pair opts j"
  shows "launch_args P dbg file opts serve =
         push_default_gdb_options [dbg] serve @ [''-x'', file] @ take k opts
           @ [''-ex'', target_remote_cmd (params_host P) (port P)] @ drop k opts
           @ [params_exe_image P]"
proof -
  have "push_options opts h p 0 (args, False) =
     (args @ take (k - 0) (drop 0 opts) @ push_gdb_target_remote_cmd [] h p @ drop k opts, True)"
    for h p args
    by (rule push_options_first) (use assms in auto)
  then show ?thesis
    by (simp add: launch_args_def push_gdb_target_remote_cmd_def)
qed

lemma launch_args_none:
  assumes "\<forall>j. \<not> is_resume_pair opts j"
  shows "launch_args P dbg file opts serve =
         push_default_gdb_options [dbg] serve @ [''-x'', file] @ opts
           @ [''-ex'', target_remote_cmd (params_host P) (port P), params_exe_image P]"
proof -
  have "push_options opts h p 0 (args, False) = (args @ drop 0 opts, False)" for h p args
    by (rule push_options_none) (use assms in auto)
  then show ?thesis
    by (simp add: launch_args_def push_gdb_target_remote_cmd_def)
qed

lemma launch_args_shape:
  "\<exists>k\<le>length opts. launch_args P dbg file opts serve =
         push_default_gdb_options [dbg] serve @ [''-x'', file] @ take k opts
           @ [''-ex'', target_remote_cmd (params_host P) (port P)] @ drop k opts
           @ [params_exe_image P]"
proof (cases "\<exists>j. is_resume_pair opts j")
  case True
  then obtain k where k: "is_resume_pair opts k" "\<forall>i<k. \<not> is_resume_pair opts i"
    using first_resume_pair_exists by blast
  then have "k \<le> length opts" by (simp add: is_resume_pair_def)
  then show ?thesis using launch_args_first [OF k] by blast
next
  case False
  then have "\<forall>j. \<not> is_resume_pair opts j" by simp
  from launch_args_none [OF this] show ?thesis
    by (intro exI [of _ "length opts"]) simp
qed

lemma needs_target_Cons: "needs_target (c # s) \<Longrightarrow> c = CHR ''c''"
  by (simp add: needs_target_def NUL_def Let_def split: if_splits)

lemma needs_target_continue: "needs_target ''continue''"
  by (simp add: needs_target_def NUL_def)

lemma not_needs_target_ex: "\<not> needs_target ''-ex''"
  using needs_target_Cons by fastforce

lemma not_needs_target_cmd: "\<not> needs_target (target_remote_cmd h p)"
  using needs_target_Cons [of "CHR ''t''"] by (auto simp: target_remote_cmd_def)

lemma strncmp_prefix:
  "NUL \<notin> set s \<Longrightarrow> (strncmp s t (length s) = 0) = prefix s t"
proof (induction s arbitrary: t)
  case Nil
  then show ?case by simp
next
  case (Cons c s)
  then show ?case by (cases t) (auto simp: Let_def)
qed

lemma needs_target_iff_prefix:
  "NUL \<notin> set s \<Longrightarrow> needs_target s = prefix s ''continue''"
  by (simp add: needs_target_def strncmp_prefix)

lemma count_adjacent_zero: "b \<notin> set ys \<Longrightarrow> count_adjacent a b (y # ys) = 0"
  by (induction ys arbitrary: y) auto

lemma count_adjacent_once:
  "b \<notin> set xs \<Longrightarrow> b \<notin> set ys \<Longrightarrow> a \<noteq> b \<Longrightarrow> count_adjacent a b (x # xs @ a # b # ys) = 1"
  by (induction xs arbitrary: x) (auto simp: count_adjacent_zero)

lemma count_adjacent_pos: "0 < count_adjacent a b (x # xs @ a # b # ys)"
  by (induction xs arbitrary: x) auto

lemma push_default_eq:
  "push_default_gdb_options vec serve =
     vec @ [''-l'', ''10000''] @ (if serve then [] else [''-ex'', ''set sysroot /''])"
  by (simp add: push_default_gdb_options_def Let_def)

lemma push_default_Cons:
  "push_default_gdb_options (x # vec) serve = x # push_default_gdb_options vec serve"
  by (simp add: push_default_eq)

lemma target_cmd_not_fixed:
  "target_remote_cmd h p \<notin> set (push_default_gdb_options [] serve @ [''-x'', procfile pd fd])"
  by (simp add: push_default_eq target_remote_cmd_def procfile_def)

lemma target_cmd_not_ex: "''-ex'' \<noteq> target_remote_cmd h p"
  by (simp add: target_remote_cmd_def)

lemma directive_once:
  assumes shape: "args = push_default_gdb_options [dbg] serve @ [''-x'', procfile pd fd] @ take k opts
           @ [''-ex'', target_remote_cmd h p] @ drop k opts @ [img]"
    and opts: "target_remote_cmd h p \<notin> set opts" and img: "img \<noteq> target_remote_cmd h p"
  shows "count_adjacent ''-ex'' (target_remote_cmd h p) args = 1"
proof -
  let ?T = "target_remote_cmd h p"
  let ?xs = "(push_default_gdb_options [] serve @ [''-x'', procfile pd fd]) @ take k opts"
  let ?ys = "drop k opts @ [img]"
  have a: "args = dbg # ?xs @ ''-ex'' # ?T # ?ys"
    unfolding shape by (simp add: push_default_Cons)
  have "?T \<notin> set (take k opts)" using opts by (meson in_set_takeD)
  then have xs: "?T \<notin> set ?xs"
    using target_cmd_not_fixed [of h p serve pd fd] by (simp only: set_append Un_iff) blast
  have "?T \<notin> set (drop k opts)" using opts by (meson in_set_dropD)
  then have ys: "?T \<notin> set ?ys" using img by simp
  show ?thesis
    unfolding a by (rule count_adjacent_once [OF xs ys target_cmd_not_ex])
qed

lemmas run_simps =
  launch_args_def push_options.simps push_default_eq push_gdb_target_remote_cmd_def
  target_remote_cmd_def procfile_def dec_int_def dec_nat.simps digit_char_def c_string_def
  params_host_def params_exe_image_def NUL_def needs_target_def is_resume_pair_def
  is_continue_pair_def

section \<open>Resume pairs in the built sequence\<close>

lemma is_resume_pair_Cons:
  "is_resume_pair (x # xs) j =
     (case j of 0 \<Rightarrow> xs \<noteq> [] \<and> x = ''-ex'' \<and> needs_target (hd xs)
      | Suc i \<Rightarrow> is_resume_pair xs i)"
  by (cases xs) (auto simp: is_resume_pair_def split: nat.splits)

lemma not_needs_target_fixed:
  "\<not> needs_target ''-l''" "\<not> needs_target ''10000''" "\<not> needs_target ''set sysroot /''"
  "\<not> needs_target ''-x''" "\<not> needs_target (procfile pd fd)"
  using needs_target_Cons by (fastforce simp: procfile_def)+

lemma is_resume_pair_after_fixed:
  assumes "is_resume_pair (push_default_gdb_options [dbg] serve @ [''-x'', procfile pd fd] @ ys) j"
  shows "length (push_default_gdb_options [dbg] serve @ [''-x'', procfile pd fd]) \<le> j
         \<and> is_resume_pair ys (j - length (push_default_gdb_options [dbg] serve @ [''-x'', procfile pd fd]))"
proof (cases serve)
  case True
  then have "is_resume_pair (dbg # ''-l'' # ''10000'' # ''-x'' # procfile pd fd # ys) j"
    using assms by (simp add: push_default_eq)
  then have "5 \<le> j \<and> is_resume_pair ys (j - 5)"
    by (auto simp: is_resume_pair_Cons not_needs_target_fixed procfile_def split: nat.splits)
  then show ?thesis using True by (simp add: push_default_eq eval_nat_numeral)
next
  case False
  then have "is_resume_pair (dbg # ''-l'' # ''10000'' # ''-ex'' # ''set sysroot /'' # ''-x''
               # procfile pd fd # ys) j"
    using assms by (simp add: push_default_eq)
  then have "7 \<le> j \<and> is_resume_pair ys (j - 7)"
    by (auto simp: is_resume_pair_Cons not_needs_target_fixed procfile_def split: nat.splits)
  then show ?thesis using False by (simp add: push_default_eq eval_nat_numeral)
qed

lemma is_resume_pair_take:
  "is_resume_pair (take n xs) j \<Longrightarrow> is_resume_pair xs j \<and> j + 1 < n"
  by (auto simp: is_resume_pair_def)

lemma is_resume_pair_at_length:
  "needs_target c \<Longrightarrow> is_resume_pair (xs @ ''-ex'' # c # rest) (length xs)"
  by (simp add: is_resume_pair_def nth_append)

lemma continue_pair_is_resume_pair: "is_continue_pair xs j \<Longrightarrow> is_resume_pair xs j"
  by (simp add: is_continue_pair_def is_resume_pair_def needs_target_continue)

lemma directive_precedes:
  assumes k: "is_resume_pair opts k" and first: "\<forall>j<k. \<not> is_resume_pair opts j"
    and args: "args = fixed @ take k opts @ [''-ex'', target_remote_cmd h p] @ drop k opts @ [img]"
    and fixed: "fixed = push_default_gdb_options [dbg] serve @ [''-x'', procfile pd fd]"
    and n: "n = length fixed + k"
  shows "args ! n = ''-ex'' \<and> args ! (n + 1) = target_remote_cmd h p
         \<and> is_resume_pair args (n + 2) \<and> (\<forall>j. is_resume_pair args j \<longrightarrow> n + 2 \<le> j)"
proof -
  let ?T = "target_remote_cmd h p"
  let ?A = "fixed @ take k opts"
  have klt: "Suc k < length opts" and ok: "opts ! k = ''-ex''"
    and nt: "needs_target (opts ! Suc k)"
    using k by (simp_all add: is_resume_pair_def)
  have lenA: "length ?A = n" using klt n by simp
  have dk: "drop k opts = ''-ex'' # opts ! Suc k # drop (Suc (Suc k)) opts"
    using klt ok by (metis Cons_nth_drop_Suc Suc_lessD)
  have a1: "args = ?A @ ''-ex'' # ?T # ''-ex'' # opts ! Suc k # drop (Suc (Suc k)) opts @ [img]"
    unfolding args dk by simp
  have at_n: "args ! n = ''-ex''"
    using nth_append_length [of ?A "''-ex''"] unfolding a1 lenA by simp
  have at_n1: "args ! (n + 1) = ?T"
    using nth_append_length_plus [of ?A _ 1] unfolding a1 lenA by simp
  have a2: "args = (?A @ [''-ex'', ?T]) @ ''-ex'' # opts ! Suc k # (drop (Suc (Suc k)) opts @ [img])"
    unfolding a1 by simp
  have pair: "is_resume_pair args (n + 2)"
    using is_resume_pair_at_length [OF nt, of "?A @ [''-ex'', ?T]"] lenA
    unfolding a2 by simp
  have later: "n + 2 \<le> j" if j: "is_resume_pair args j" for j
  proof (rule ccontr)
    assume "\<not> n + 2 \<le> j"
    then consider "j = n + 1" | "j = n" | "j < n" by linarith
    then show False
    proof cases
      case 1
      then show ?thesis using j at_n1 target_cmd_not_ex [of h p]
        by (simp add: is_resume_pair_def)
    next
      case 2
      then show ?thesis using j at_n1 not_needs_target_cmd [of h p]
        by (simp add: is_resume_pair_def)
    next
      case 3
      have tk: "take k opts @ [''-ex''] = take (Suc k) opts"
        using klt ok by (simp add: take_Suc_conv_app_nth)
      have "args ! j = (?A @ [''-ex'']) ! j" "args ! (j + 1) = (?A @ [''-ex'']) ! (j + 1)"
        unfolding a1 using 3 lenA by (simp_all add: nth_append)
      then have "is_resume_pair (?A @ [''-ex'']) j"
        using j 3 lenA by (simp add: is_resume_pair_def)
      then have "is_resume_pair (fixed @ take (Suc k) opts) j"
        using tk by simp
      then have "length fixed \<le> j \<and> is_resume_pair (take (Suc k) opts) (j - length fixed)"
        unfolding fixed using is_resume_pair_after_fixed [of dbg serve pd fd "take (Suc k) opts" j]
        by simp
      then have "is_resume_pair opts (j - length fixed) \<and> j - length fixed < k"
        using is_resume_pair_take [of "Suc k" opts "j - length fixed"] by simp
      then show ?thesis using first by blast
    qed
  qed
  show ?thesis using at_n at_n1 pair later by blast
qed

section \<open>C1: the directive before the first resume pair\<close>

text \<open>
  C1, as the code has it. \<open>needs_target\<close> compares only the first
  \<open>length option\<close> bytes with \<^verbatim>\<open>continue\<close>, so it accepts every prefix of
  \<^verbatim>\<open>continue\<close>, the empty option included (\<open>needs_target_iff_prefix\<close>), not only
  the whole word. Let the record read from the pipe hold a NUL in its host array and in
  its image-path array, so that both are C strings. When the passthrough options hold
  \<^verbatim>\<open>-ex\<close> followed by such an option, first at index \<open>k\<close>, the bootstrap sequence
  is the program path, the default options, \<^verbatim>\<open>-x\<close> and the command file, then the
  passthrough options with the target-connection directive put in once, immediately
  before index \<open>k\<close>, then the image path. The directive then occurs exactly once in
  the sequence, provided its text is neither among the passthrough options nor the
  image path.
\<close>

theorem bootstrap_target_before_first_resume_pair:
  assumes "is_resume_pair options k" and "\<forall>j<k. \<not> is_resume_pair options j"
    and "NUL \<in> set (host P)" and "NUL \<in> set (exe_image P)"
  shows "launch_args P dbg (procfile pd fd) options serve =
           push_default_gdb_options [dbg] serve @ [''-x'', procfile pd fd] @ take k options
             @ [''-ex'', target_remote_cmd (c_string (host P)) (port P)] @ drop k options
             @ [c_string (exe_image P)]
         \<and> (target_remote_cmd (c_string (host P)) (port P) \<notin> set options
              \<and> c_string (exe_image P) \<noteq> target_remote_cmd (c_string (host P)) (port P)
            \<longrightarrow> count_adjacent ''-ex'' (target_remote_cmd (c_string (host P)) (port P))
                  (launch_args P dbg (procfile pd fd) options serve) = 1)"
  unfolding params_host_terminated [OF assms(3), symmetric]
    params_exe_image_terminated [OF assms(4), symmetric]
  using launch_args_first [OF assms(1,2)] directive_once by simp

text \<open>The specification's scenario: the directive goes before \<^verbatim>\<open>-ex continue\<close>.\<close>

theorem bootstrap_target_before_first_resume_pair_witness:
  "is_resume_pair [''-ex'', ''echo hi'', ''-ex'', ''continue''] 2
   \<and> \<not> is_resume_pair [''-ex'', ''echo hi'', ''-ex'', ''continue''] 0
   \<and> \<not> is_resume_pair [''-ex'', ''echo hi'', ''-ex'', ''continue''] 1
   \<and> launch_args \<lparr>exe_image = ''/bin/ls'' @ replicate 4089 NUL, host = ''127.0.0.1'' @ replicate 7 NUL,
           port = 9999\<rparr> ''gdb''
         (procfile 4242 7) [''-ex'', ''echo hi'', ''-ex'', ''continue''] False
       = [''gdb'', ''-l'', ''10000'', ''-ex'', ''set sysroot /'', ''-x'', ''/proc/4242/fd/7'',
          ''-ex'', ''echo hi'', ''-ex'', ''target extended-remote 127.0.0.1:9999'',
          ''-ex'', ''continue'', ''/bin/ls'']
   \<and> count_adjacent ''-ex'' ''target extended-remote 127.0.0.1:9999''
         (launch_args \<lparr>exe_image = ''/bin/ls'' @ replicate 4089 NUL, host = ''127.0.0.1'' @ replicate 7 NUL,
           port = 9999\<rparr> ''gdb''
            (procfile 4242 7) [''-ex'', ''echo hi'', ''-ex'', ''continue''] False) = 1"
proof -
  let ?O = "[''-ex'', ''echo hi'', ''-ex'', ''continue'']"
  let ?P = "\<lparr>exe_image = ''/bin/ls'' @ replicate 4089 NUL, host = ''127.0.0.1'' @ replicate 7 NUL,
           port = 9999\<rparr>"
  have p2: "is_resume_pair ?O 2"
    by (simp add: is_resume_pair_def needs_target_def NUL_def)
  have p0: "\<not> is_resume_pair ?O 0" and p1: "\<not> is_resume_pair ?O 1"
    by (simp_all add: is_resume_pair_def needs_target_def NUL_def)
  have first: "\<forall>j<2. \<not> is_resume_pair ?O j"
    using p0 p1 by (simp add: less_2_cases_iff)
  have h: "NUL \<in> set (host ?P)" and e: "NUL \<in> set (exe_image ?P)"
    by simp_all
  show ?thesis
    using bootstrap_target_before_first_resume_pair [OF p2 first h e, of "''gdb''" 4242 7 False]
      p2 p0 p1
    by (simp add: push_default_eq target_remote_cmd_def procfile_def dec_int_def
        dec_nat.simps digit_char_def c_string_def NUL_def)
qed

text \<open>
  C1 as the specification states it fails: with the options \<^verbatim>\<open>-ex c -ex continue\<close> the
  first pair whose second token is exactly \<^verbatim>\<open>continue\<close> is at index 2, and the
  directive is not immediately before it: it stands before \<^verbatim>\<open>-ex c\<close>.
\<close>

theorem exact_continue_pair_counterexample:
  "is_continue_pair [''-ex'', ''c'', ''-ex'', ''continue''] 2
   \<and> \<not> is_continue_pair [''-ex'', ''c'', ''-ex'', ''continue''] 0
   \<and> \<not> is_continue_pair [''-ex'', ''c'', ''-ex'', ''continue''] 1
   \<and> launch_args \<lparr>exe_image = ''/bin/ls'' @ replicate 4089 NUL, host = ''127.0.0.1'' @ replicate 7 NUL,
           port = 9999\<rparr> ''gdb''
         (procfile 4242 7) [''-ex'', ''c'', ''-ex'', ''continue''] False
       = [''gdb'', ''-l'', ''10000'', ''-ex'', ''set sysroot /'', ''-x'', ''/proc/4242/fd/7'',
          ''-ex'', ''target extended-remote 127.0.0.1:9999'', ''-ex'', ''c'',
          ''-ex'', ''continue'', ''/bin/ls'']
   \<and> launch_args \<lparr>exe_image = ''/bin/ls'' @ replicate 4089 NUL, host = ''127.0.0.1'' @ replicate 7 NUL,
           port = 9999\<rparr> ''gdb''
         (procfile 4242 7) [''-ex'', ''c'', ''-ex'', ''continue''] False
       \<noteq> [''gdb'', ''-l'', ''10000'', ''-ex'', ''set sysroot /'', ''-x'', ''/proc/4242/fd/7'',
          ''-ex'', ''c'', ''-ex'', ''target extended-remote 127.0.0.1:9999'',
          ''-ex'', ''continue'', ''/bin/ls'']"
  by (simp add: run_simps)

section \<open>C2: the directive appended after the options\<close>

text \<open>
  C2, as the code has it. Let the record read from the pipe hold a NUL in its host array
  and in its image-path array. When the passthrough options hold no \<^verbatim>\<open>-ex\<close>
  followed by an option that \<open>needs_target\<close> accepts (a prefix of \<^verbatim>\<open>continue\<close>, the
  empty option included), the bootstrap sequence is the program path, the default
  options, \<^verbatim>\<open>-x\<close> and the command file, all passthrough options unchanged, then the
  target-connection directive and last the image path. The directive then occurs
  exactly once in the sequence, provided its text is neither among the passthrough
  options nor the image path.
\<close>

theorem bootstrap_target_appended_without_resume_pair:
  assumes "\<forall>j. \<not> is_resume_pair options j"
    and "NUL \<in> set (host P)" and "NUL \<in> set (exe_image P)"
  shows "launch_args P dbg (procfile pd fd) options serve =
           push_default_gdb_options [dbg] serve @ [''-x'', procfile pd fd] @ options
             @ [''-ex'', target_remote_cmd (c_string (host P)) (port P), c_string (exe_image P)]
         \<and> (target_remote_cmd (c_string (host P)) (port P) \<notin> set options
              \<and> c_string (exe_image P) \<noteq> target_remote_cmd (c_string (host P)) (port P)
            \<longrightarrow> count_adjacent ''-ex'' (target_remote_cmd (c_string (host P)) (port P))
                  (launch_args P dbg (procfile pd fd) options serve) = 1)"
proof -
  have s: "launch_args P dbg (procfile pd fd) options serve =
           push_default_gdb_options [dbg] serve @ [''-x'', procfile pd fd]
             @ take (length options) options
             @ [''-ex'', target_remote_cmd (params_host P) (port P)]
             @ drop (length options) options @ [params_exe_image P]"
    using launch_args_none [OF assms(1)] by simp
  show ?thesis
    unfolding params_host_terminated [OF assms(2), symmetric]
      params_exe_image_terminated [OF assms(3), symmetric]
    using s directive_once [OF s] by simp
qed

theorem bootstrap_target_appended_without_resume_pair_witness:
  "\<not> is_resume_pair [''-q'', ''-ex'', ''break main''] 0
   \<and> \<not> is_resume_pair [''-q'', ''-ex'', ''break main''] 1
   \<and> launch_args \<lparr>exe_image = ''/bin/ls'' @ replicate 4089 NUL, host = ''127.0.0.1'' @ replicate 7 NUL,
           port = 9999\<rparr> ''gdb''
         (procfile 4242 7) [''-q'', ''-ex'', ''break main''] True
       = [''gdb'', ''-l'', ''10000'', ''-x'', ''/proc/4242/fd/7'', ''-q'', ''-ex'', ''break main'',
          ''-ex'', ''target extended-remote 127.0.0.1:9999'', ''/bin/ls'']
   \<and> count_adjacent ''-ex'' ''target extended-remote 127.0.0.1:9999''
         (launch_args \<lparr>exe_image = ''/bin/ls'' @ replicate 4089 NUL, host = ''127.0.0.1'' @ replicate 7 NUL,
           port = 9999\<rparr> ''gdb''
            (procfile 4242 7) [''-q'', ''-ex'', ''break main''] True) = 1"
proof -
  let ?O = "[''-q'', ''-ex'', ''break main'']"
  let ?P = "\<lparr>exe_image = ''/bin/ls'' @ replicate 4089 NUL, host = ''127.0.0.1'' @ replicate 7 NUL,
           port = 9999\<rparr>"
  have none: "\<forall>j. \<not> is_resume_pair ?O j"
    by (auto simp: is_resume_pair_Cons needs_target_def NUL_def is_resume_pair_def [of "[]"]
        split: nat.splits)
  have h: "NUL \<in> set (host ?P)" and e: "NUL \<in> set (exe_image ?P)"
    by simp_all
  show ?thesis
    using bootstrap_target_appended_without_resume_pair [OF none h e, of "''gdb''" 4242 7 True]
      none
    by (simp add: push_default_eq target_remote_cmd_def procfile_def dec_int_def
        dec_nat.simps digit_char_def c_string_def NUL_def)
qed

text \<open>
  C2 as the specification states it fails: the options \<^verbatim>\<open>-ex c\<close> hold no pair whose
  second token is exactly \<^verbatim>\<open>continue\<close>, yet the directive is not put immediately
  before the image path: it stands before \<^verbatim>\<open>-ex c\<close>.
\<close>

theorem prefix_of_continue_counterexample:
  "\<not> is_continue_pair [''-ex'', ''c''] 0
   \<and> \<not> is_continue_pair [''-ex'', ''c''] 1
   \<and> launch_args \<lparr>exe_image = ''/bin/ls'' @ replicate 4089 NUL, host = ''127.0.0.1'' @ replicate 7 NUL,
           port = 9999\<rparr> ''gdb''
         (procfile 4242 7) [''-ex'', ''c''] False
       = [''gdb'', ''-l'', ''10000'', ''-ex'', ''set sysroot /'', ''-x'', ''/proc/4242/fd/7'',
          ''-ex'', ''target extended-remote 127.0.0.1:9999'', ''-ex'', ''c'', ''/bin/ls'']
   \<and> launch_args \<lparr>exe_image = ''/bin/ls'' @ replicate 4089 NUL, host = ''127.0.0.1'' @ replicate 7 NUL,
           port = 9999\<rparr> ''gdb''
         (procfile 4242 7) [''-ex'', ''c''] False
       \<noteq> [''gdb'', ''-l'', ''10000'', ''-ex'', ''set sysroot /'', ''-x'', ''/proc/4242/fd/7'',
          ''-ex'', ''c'', ''-ex'', ''target extended-remote 127.0.0.1:9999'', ''/bin/ls'']"
  by (simp add: run_simps)

section \<open>C7: the directive precedes the first resume directive\<close>

text \<open>
  C7, as the code has it. Let the record read from the pipe hold a NUL in its host array
  and in its image-path array. When the directive is inserted mid-sequence, that is when
  the passthrough options hold a pair \<^verbatim>\<open>-ex\<close>, prefix of \<^verbatim>\<open>continue\<close>, first at
  index \<open>k\<close>, the directive stands at index \<open>n\<close> of the built sequence, \<open>k\<close> places
  after the command file, the first resume pair of the whole sequence follows it
  immediately at \<open>n + 2\<close>, so no resume pair and no \<^verbatim>\<open>-ex continue\<close> pair comes at
  or before it, and the directive occurs exactly once, provided its text is neither
  among the passthrough options nor the image path.
\<close>

theorem target_precedes_first_resume_directive:
  assumes "is_resume_pair options k" and "\<forall>j<k. \<not> is_resume_pair options j"
    and "n = length (push_default_gdb_options [dbg] serve) + 2 + k"
    and "NUL \<in> set (host P)" and "NUL \<in> set (exe_image P)"
  shows "launch_args P dbg (procfile pd fd) options serve ! n = ''-ex''
         \<and> launch_args P dbg (procfile pd fd) options serve ! (n + 1)
             = target_remote_cmd (c_string (host P)) (port P)
         \<and> is_resume_pair (launch_args P dbg (procfile pd fd) options serve) (n + 2)
         \<and> (\<forall>j. is_resume_pair (launch_args P dbg (procfile pd fd) options serve) j
                \<longrightarrow> n + 2 \<le> j)
         \<and> (\<forall>j. is_continue_pair (launch_args P dbg (procfile pd fd) options serve) j
                \<longrightarrow> n + 2 \<le> j)
         \<and> (target_remote_cmd (c_string (host P)) (port P) \<notin> set options
              \<and> c_string (exe_image P) \<noteq> target_remote_cmd (c_string (host P)) (port P)
            \<longrightarrow> count_adjacent ''-ex'' (target_remote_cmd (c_string (host P)) (port P))
                  (launch_args P dbg (procfile pd fd) options serve) = 1)"
proof -
  let ?args = "launch_args P dbg (procfile pd fd) options serve"
  let ?fixed = "push_default_gdb_options [dbg] serve @ [''-x'', procfile pd fd]"
  have h: "params_host P = c_string (host P)"
    by (rule params_host_terminated [OF assms(4)])
  have e: "params_exe_image P = c_string (exe_image P)"
    by (rule params_exe_image_terminated [OF assms(5)])
  have shape: "?args = ?fixed @ take k options
      @ [''-ex'', target_remote_cmd (c_string (host P)) (port P)] @ drop k options
      @ [c_string (exe_image P)]"
    using launch_args_first [OF assms(1,2)] by (simp add: h e)
  have n: "n = length ?fixed + k" using assms(3) by simp
  have pos: "?args ! n = ''-ex'' \<and> ?args ! (n + 1) = target_remote_cmd (c_string (host P)) (port P)
         \<and> is_resume_pair ?args (n + 2) \<and> (\<forall>j. is_resume_pair ?args j \<longrightarrow> n + 2 \<le> j)"
    by (rule directive_precedes [OF assms(1,2) shape refl n])
  have shape': "?args = push_default_gdb_options [dbg] serve @ [''-x'', procfile pd fd] @ take k options
      @ [''-ex'', target_remote_cmd (c_string (host P)) (port P)] @ drop k options
      @ [c_string (exe_image P)]"
    using shape by simp
  show ?thesis
    using pos continue_pair_is_resume_pair directive_once [OF shape'] by blast
qed

theorem target_precedes_first_resume_directive_witness:
  "is_resume_pair [''-ex'', ''c'', ''-ex'', ''continue''] 0
   \<and> launch_args \<lparr>exe_image = ''/bin/ls'' @ replicate 4089 NUL, host = ''127.0.0.1'' @ replicate 7 NUL,
           port = 9999\<rparr> ''gdb''
         (procfile 4242 7) [''-ex'', ''c'', ''-ex'', ''continue''] True ! 5 = ''-ex''
   \<and> launch_args \<lparr>exe_image = ''/bin/ls'' @ replicate 4089 NUL, host = ''127.0.0.1'' @ replicate 7 NUL,
           port = 9999\<rparr> ''gdb''
         (procfile 4242 7) [''-ex'', ''c'', ''-ex'', ''continue''] True ! 6
       = ''target extended-remote 127.0.0.1:9999''
   \<and> is_resume_pair (launch_args \<lparr>exe_image = ''/bin/ls'' @ replicate 4089 NUL, host = ''127.0.0.1'' @ replicate 7 NUL,
           port = 9999\<rparr>
         ''gdb'' (procfile 4242 7) [''-ex'', ''c'', ''-ex'', ''continue''] True) 7
   \<and> \<not> is_resume_pair (launch_args \<lparr>exe_image = ''/bin/ls'' @ replicate 4089 NUL, host = ''127.0.0.1'' @ replicate 7 NUL,
           port = 9999\<rparr>
         ''gdb'' (procfile 4242 7) [''-ex'', ''c'', ''-ex'', ''continue''] True) 5
   \<and> \<not> is_continue_pair (launch_args \<lparr>exe_image = ''/bin/ls'' @ replicate 4089 NUL, host = ''127.0.0.1'' @ replicate 7 NUL,
           port = 9999\<rparr>
         ''gdb'' (procfile 4242 7) [''-ex'', ''c'', ''-ex'', ''continue''] True) 5
   \<and> count_adjacent ''-ex'' ''target extended-remote 127.0.0.1:9999''
         (launch_args \<lparr>exe_image = ''/bin/ls'' @ replicate 4089 NUL, host = ''127.0.0.1'' @ replicate 7 NUL,
           port = 9999\<rparr> ''gdb''
            (procfile 4242 7) [''-ex'', ''c'', ''-ex'', ''continue''] True) = 1"
proof -
  let ?O = "[''-ex'', ''c'', ''-ex'', ''continue'']"
  let ?P = "\<lparr>exe_image = ''/bin/ls'' @ replicate 4089 NUL, host = ''127.0.0.1'' @ replicate 7 NUL,
           port = 9999\<rparr>"
  have p0: "is_resume_pair ?O 0"
    by (simp add: is_resume_pair_def needs_target_def NUL_def)
  have first: "\<forall>j<0. \<not> is_resume_pair ?O j" by simp
  have n: "(5::nat) = length (push_default_gdb_options [''gdb''] True) + 2 + 0"
    by (simp add: push_default_eq)
  have h: "NUL \<in> set (host ?P)" and e: "NUL \<in> set (exe_image ?P)"
    by simp_all
  have T: "target_remote_cmd (c_string (host ?P)) (port ?P) = ''target extended-remote 127.0.0.1:9999''"
    by (simp add: target_remote_cmd_def dec_nat.simps digit_char_def c_string_def NUL_def)
  have img: "c_string (exe_image ?P) = ''/bin/ls''"
    by (simp add: c_string_def NUL_def)
  have five: "\<not> (5 + 2 \<le> (5::nat))" by simp
  show ?thesis
    using target_precedes_first_resume_directive [OF p0 first n h e, of 4242 7] p0 five
    unfolding T img by auto
qed

text \<open>
  C7 as the specification states it fails: passthrough options are copied as they are,
  so options that already hold the same directive give a sequence with the directive
  twice, though it was inserted mid-sequence.
\<close>

theorem passthrough_directive_counterexample:
  "is_resume_pair [''-ex'', ''continue'', ''-ex'', ''target extended-remote 127.0.0.1:9999''] 0
   \<and> launch_args \<lparr>exe_image = ''/bin/ls'' @ replicate 4089 NUL, host = ''127.0.0.1'' @ replicate 7 NUL,
           port = 9999\<rparr> ''gdb''
         (procfile 4242 7)
         [''-ex'', ''continue'', ''-ex'', ''target extended-remote 127.0.0.1:9999''] True
       = [''gdb'', ''-l'', ''10000'', ''-x'', ''/proc/4242/fd/7'',
          ''-ex'', ''target extended-remote 127.0.0.1:9999'', ''-ex'', ''continue'',
          ''-ex'', ''target extended-remote 127.0.0.1:9999'', ''/bin/ls'']
   \<and> count_adjacent ''-ex'' ''target extended-remote 127.0.0.1:9999''
         (launch_args \<lparr>exe_image = ''/bin/ls'' @ replicate 4089 NUL, host = ''127.0.0.1'' @ replicate 7 NUL,
           port = 9999\<rparr> ''gdb''
            (procfile 4242 7)
            [''-ex'', ''continue'', ''-ex'', ''target extended-remote 127.0.0.1:9999''] True) = 2"
  by (simp add: run_simps)

section \<open>C9: the advisory sequence\<close>

lemma to_shell_string_from_concat:
  "to_shell_string_from ss args = ss @ concat (map (\<lambda>a. [squote] @ a @ [squote] @ '' '') args)"
  by (induction args arbitrary: ss) simp_all

lemma to_shell_string_concat:
  "to_shell_string args = concat (map (\<lambda>a. [squote] @ a @ [squote] @ '' '') args)"
  by (simp add: to_shell_string_def to_shell_string_from_concat)

text \<open>
  C9. For every image path, host, port, file-serving flag and debugger name,
  \<^verbatim>\<open>debugger_launch_command\<close> returns the debugger name, \<^verbatim>\<open>-l\<close>, \<^verbatim>\<open>10000\<close>, the pair
  \<^verbatim>\<open>-ex\<close>, \<^verbatim>\<open>set sysroot /\<close> when file serving is off, \<^verbatim>\<open>-ex\<close>,
  \<^verbatim>\<open>target extended-remote HOST:PORT\<close> with the port in decimal, and the image path, in
  that order, and stores the shell-quoted rendering of that same sequence in
  \<^verbatim>\<open>saved_debugger_launch_command\<close>.
\<close>

theorem advisory_launch_command:
  "debugger_launch_command exe h p serve_files debugger_name =
     ([debugger_name, ''-l'', ''10000'']
        @ (if serve_files then [] else [''-ex'', ''set sysroot /''])
        @ [''-ex'', ''target extended-remote '' @ h @ '':'' @ dec_nat (unat p), exe],
      to_shell_string
        ([debugger_name, ''-l'', ''10000'']
           @ (if serve_files then [] else [''-ex'', ''set sysroot /''])
           @ [''-ex'', ''target extended-remote '' @ h @ '':'' @ dec_nat (unat p), exe]))"
  by (simp add: debugger_launch_command_def push_default_eq push_gdb_target_remote_cmd_def
      target_remote_cmd_def Let_def)

theorem advisory_launch_command_witness:
  "debugger_launch_command ''/bin/ls'' ''127.0.0.1'' 9999 False ''gdb'' =
     ([''gdb'', ''-l'', ''10000'', ''-ex'', ''set sysroot /'',
       ''-ex'', ''target extended-remote 127.0.0.1:9999'', ''/bin/ls''],
      [squote] @ ''gdb' '-l' '10000' '-ex' 'set sysroot /' '-ex' 'target extended-remote 127.0.0.1:9999' '/bin/ls' '')
   \<and> fst (debugger_launch_command ''/bin/ls'' ''127.0.0.1'' 65535 True ''gdb'') =
     [''gdb'', ''-l'', ''10000'', ''-ex'', ''target extended-remote 127.0.0.1:65535'', ''/bin/ls'']"
  using advisory_launch_command [of "''/bin/ls''" "''127.0.0.1''" 9999 False "''gdb''"]
    advisory_launch_command [of "''/bin/ls''" "''127.0.0.1''" 65535 True "''gdb''"]
  by (simp add: to_shell_string_concat squote_def dec_nat.simps digit_char_def)

section \<open>C3: the sysroot pair\<close>

lemma launch_args_Cons:
  "\<exists>k\<le>length opts. launch_args P dbg file opts serve =
     dbg # push_default_gdb_options [] serve @ [''-x'', file] @ take k opts
       @ [''-ex'', target_remote_cmd (params_host P) (port P)] @ drop k opts
       @ [params_exe_image P]"
  using launch_args_shape [of opts P dbg "file" serve] by (simp add: push_default_Cons)

lemma launch_args_sysroot:
  "0 < count_adjacent ''-ex'' ''set sysroot /'' (launch_args P dbg file opts False)"
proof -
  obtain k where "launch_args P dbg file opts False =
     dbg # [''-l'', ''10000''] @ ''-ex'' # ''set sysroot /'' # ([''-x'', file] @ take k opts
       @ [''-ex'', target_remote_cmd (params_host P) (port P)] @ drop k opts
       @ [params_exe_image P])"
    using launch_args_Cons [of opts P dbg "file" False] by (auto simp: push_default_eq)
  then show ?thesis by (simp only: count_adjacent_pos)
qed

lemma launch_args_no_sysroot:
  assumes "''set sysroot /'' \<notin> set opts" and "params_exe_image P \<noteq> ''set sysroot /''"
  shows "count_adjacent ''-ex'' ''set sysroot /'' (launch_args P dbg (procfile pd fd) opts True) = 0"
proof -
  obtain k where k: "launch_args P dbg (procfile pd fd) opts True =
     dbg # ([''-l'', ''10000'', ''-x'', procfile pd fd] @ take k opts
       @ [''-ex'', target_remote_cmd (params_host P) (port P)] @ drop k opts
       @ [params_exe_image P])"
    using launch_args_Cons [of opts P dbg "procfile pd fd" True] by (auto simp: push_default_eq)
  have "''set sysroot /'' \<notin> set (take k opts)" "''set sysroot /'' \<notin> set (drop k opts)"
    using assms(1) by (meson in_set_takeD, meson in_set_dropD)
  then have "''set sysroot /'' \<notin> set ([''-l'', ''10000'', ''-x'', procfile pd fd] @ take k opts
       @ [''-ex'', target_remote_cmd (params_host P) (port P)] @ drop k opts
       @ [params_exe_image P])"
    using assms(2) by (simp add: procfile_def target_remote_cmd_def)
  then show ?thesis unfolding k by (rule count_adjacent_zero)
qed

text \<open>
  C3, as the code has it. With file serving off, both the advisory and the bootstrap
  sequence contain \<^verbatim>\<open>-ex\<close> immediately followed by \<^verbatim>\<open>set sysroot /\<close>. With file
  serving on, the advisory sequence never contains that pair, and the bootstrap
  sequence does not contain it provided \<^verbatim>\<open>set sysroot /\<close> is neither among the
  passthrough options nor the image path: the builder adds none, and passthrough options
  are copied as they are.
\<close>

theorem sysroot_pair_follows_serve_files:
  "0 < count_adjacent ''-ex'' ''set sysroot /''
         (fst (debugger_launch_command exe h p False debugger_name))
   \<and> 0 < count_adjacent ''-ex'' ''set sysroot /''
         (launch_args P dbg (procfile pd fd) options False)
   \<and> count_adjacent ''-ex'' ''set sysroot /''
         (fst (debugger_launch_command exe h p True debugger_name)) = 0
   \<and> (''set sysroot /'' \<notin> set options \<and> params_exe_image P \<noteq> ''set sysroot /''
       \<longrightarrow> count_adjacent ''-ex'' ''set sysroot /''
             (launch_args P dbg (procfile pd fd) options True) = 0)"
proof -
  have "0 < count_adjacent ''-ex'' ''set sysroot /''
         (fst (debugger_launch_command exe h p False debugger_name))"
    by (simp add: debugger_launch_command_def push_default_eq push_gdb_target_remote_cmd_def
        Let_def)
  moreover have "count_adjacent ''-ex'' ''set sysroot /''
         (fst (debugger_launch_command exe h p True debugger_name)) = 0"
    by (simp add: debugger_launch_command_def push_default_eq push_gdb_target_remote_cmd_def
        target_remote_cmd_def Let_def)
  ultimately show ?thesis
    using launch_args_sysroot launch_args_no_sysroot by blast
qed

theorem sysroot_pair_follows_serve_files_witness:
  "count_adjacent ''-ex'' ''set sysroot /''
         (fst (debugger_launch_command ''/bin/ls'' ''127.0.0.1'' 9999 False ''gdb'')) = 1
   \<and> count_adjacent ''-ex'' ''set sysroot /''
         (launch_args \<lparr>exe_image = ''/bin/ls'' @ replicate 4089 NUL, host = ''127.0.0.1'' @ replicate 7 NUL,
           port = 9999\<rparr> ''gdb''
            (procfile 4242 7) [''-ex'', ''continue''] False) = 1
   \<and> count_adjacent ''-ex'' ''set sysroot /''
         (fst (debugger_launch_command ''/bin/ls'' ''127.0.0.1'' 9999 True ''gdb'')) = 0
   \<and> count_adjacent ''-ex'' ''set sysroot /''
         (launch_args \<lparr>exe_image = ''/bin/ls'' @ replicate 4089 NUL, host = ''127.0.0.1'' @ replicate 7 NUL,
           port = 9999\<rparr> ''gdb''
            (procfile 4242 7) [''-ex'', ''continue''] True) = 0"
proof -
  have a: "count_adjacent ''-ex'' ''set sysroot /''
         (fst (debugger_launch_command ''/bin/ls'' ''127.0.0.1'' 9999 False ''gdb'')) \<le> 1"
    by (simp add: debugger_launch_command_def push_default_eq push_gdb_target_remote_cmd_def
        target_remote_cmd_def Let_def)
  have b: "count_adjacent ''-ex'' ''set sysroot /''
         (launch_args \<lparr>exe_image = ''/bin/ls'' @ replicate 4089 NUL, host = ''127.0.0.1'' @ replicate 7 NUL,
           port = 9999\<rparr> ''gdb''
            (procfile 4242 7) [''-ex'', ''continue''] False) \<le> 1"
    by (simp add: run_simps)
  show ?thesis
    using sysroot_pair_follows_serve_files [of "''/bin/ls''" "''127.0.0.1''" 9999 "''gdb''"
        "\<lparr>exe_image = ''/bin/ls'' @ replicate 4089 NUL, host = ''127.0.0.1'' @ replicate 7 NUL,
           port = 9999\<rparr>" "''gdb''" 4242 7
        "[''-ex'', ''continue'']"] a b
    by (simp add: params_exe_image_def c_string_def NUL_def)
qed

text \<open>
  C3 as the specification states it fails: with file serving on and the passthrough
  options \<^verbatim>\<open>-ex\<close>, \<^verbatim>\<open>set sysroot /\<close> the bootstrap sequence contains the pair.
\<close>

theorem passthrough_sysroot_counterexample:
  "launch_args \<lparr>exe_image = ''/bin/ls'' @ replicate 4089 NUL, host = ''127.0.0.1'' @ replicate 7 NUL,
           port = 9999\<rparr> ''gdb''
         (procfile 4242 7) [''-ex'', ''set sysroot /''] True
       = [''gdb'', ''-l'', ''10000'', ''-x'', ''/proc/4242/fd/7'', ''-ex'', ''set sysroot /'',
          ''-ex'', ''target extended-remote 127.0.0.1:9999'', ''/bin/ls'']
   \<and> count_adjacent ''-ex'' ''set sysroot /''
         (launch_args \<lparr>exe_image = ''/bin/ls'' @ replicate 4089 NUL, host = ''127.0.0.1'' @ replicate 7 NUL,
           port = 9999\<rparr> ''gdb''
            (procfile 4242 7) [''-ex'', ''set sysroot /''] True) = 1"
  by (simp add: run_simps)

section \<open>C5: the macro script is computed once\<close>

lemma rr_macros_nonempty: "gm @ concat rr_macro_pieces \<noteq> []"
  by (simp add: rr_macro_pieces_def ln_def)

lemma gdb_rr_macros_keep: "s \<noteq> [] \<Longrightarrow> gdb_rr_macros gm s = (s, s)"
  by (simp add: gdb_rr_macros_def)

lemma gdb_rr_macros_fresh: "gdb_rr_macros gm [] = (gm @ concat rr_macro_pieces, gm @ concat rr_macro_pieces)"
  by (simp add: gdb_rr_macros_def Let_def)

lemma gdb_rr_macros_same: "fst (gdb_rr_macros gm s) = snd (gdb_rr_macros gm s)"
  by (simp add: gdb_rr_macros_def Let_def)

lemma gdb_rr_macros_filled: "snd (gdb_rr_macros gm s) \<noteq> []"
proof (cases "s = []")
  case True
  have e: "snd (gdb_rr_macros gm s) = gm @ concat rr_macro_pieces"
    unfolding True gdb_rr_macros_fresh by (rule snd_conv)
  show ?thesis unfolding e by (rule rr_macros_nonempty)
next
  case False
  then show ?thesis by (simp add: gdb_rr_macros_keep)
qed

text \<open>
  C5. A second call of \<^verbatim>\<open>gdb_rr_macros\<close> returns the text the first call returned, byte
  for byte, and leaves the cached \<open>s\<close> as it is, whatever
  \<^verbatim>\<open>GdbCommandHandler::gdb_macros()\<close> would give by then; starting from the empty
  \<open>s\<close> of a fresh process that text is the base macros followed by the fixed script.
\<close>

theorem gdb_rr_macros_cached:
  "fst (gdb_rr_macros gm2 (snd (gdb_rr_macros gm1 s))) = fst (gdb_rr_macros gm1 s)
   \<and> snd (gdb_rr_macros gm2 (snd (gdb_rr_macros gm1 s))) = snd (gdb_rr_macros gm1 s)
   \<and> fst (gdb_rr_macros gm1 []) = gm1 @ concat rr_macro_pieces"
  using gdb_rr_macros_keep [OF gdb_rr_macros_filled, of gm2 gm1 s]
  by (simp add: gdb_rr_macros_same gdb_rr_macros_fresh)

theorem gdb_rr_macros_cached_witness:
  "fst (gdb_rr_macros ''define other\<newline>'' (snd (gdb_rr_macros ''define checkpoint\<newline>'' [])))
     = ''define checkpoint\<newline>'' @ concat rr_macro_pieces"
  using gdb_rr_macros_cached [of "''define other\<newline>''" "''define checkpoint\<newline>''" "[]"]
  by simp

section \<open>C6: quoting round trip\<close>

lemma sh_words_single:
  "squote \<notin> set a \<Longrightarrow> sh_words Single w (a @ squote # rest) = sh_words Bare (w @ a) rest"
  by (induction a arbitrary: w) auto

lemma sh_words_quoted:
  assumes "squote \<notin> set a"
  shows "sh_words Blank [] (([squote] @ a @ [squote] @ '' '') @ rest)
         = map_option ((#) a) (sh_words Blank [] rest)"
proof -
  have "sh_words Blank [] (([squote] @ a @ [squote] @ '' '') @ rest)
        = sh_words Single [] (a @ squote # CHR '' '' # rest)"
    by (simp add: is_blank_def squote_def)
  also have "\<dots> = sh_words Bare a (CHR '' '' # rest)"
    using sh_words_single [OF assms, of "[]"] by simp
  also have "\<dots> = map_option ((#) a) (sh_words Blank [] rest)"
    by (simp add: is_blank_def)
  finally show ?thesis .
qed

lemma sh_words_quoted_list:
  "\<forall>a\<in>set args. squote \<notin> set a \<Longrightarrow>
   sh_words Blank [] (concat (map (\<lambda>a. [squote] @ a @ [squote] @ '' '') args)) = Some args"
proof (induction args)
  case Nil
  then show ?case by simp
next
  case (Cons a args)
  then have a: "squote \<notin> set a" and rest: "\<forall>a\<in>set args. squote \<notin> set a" by simp_all
  show ?case
    using sh_words_quoted [OF a, of "concat (map (\<lambda>a. [squote] @ a @ [squote] @ '' '') args)"]
      Cons.IH [OF rest]
    by simp
qed

text \<open>
  C6. For every argument sequence whose elements hold no single quote, tokenizing the
  output of \<^verbatim>\<open>to_shell_string\<close> with the reference shell tokenizer gives the
  sequence back: the same elements in the same order, empty elements and elements with
  blanks, double quotes or backslashes included.
\<close>

theorem shell_quoting_round_trip:
  assumes "\<forall>a\<in>set args. squote \<notin> set a"
  shows "shell_tokenize (to_shell_string args) = Some args"
  using sh_words_quoted_list [OF assms]
  by (simp add: shell_tokenize_def to_shell_string_concat)

theorem shell_quoting_round_trip_witness:
  "to_shell_string [''gdb'', ''-ex'', ''set sysroot /'', [], ''a\<newline>b \"c\"'']
     = [squote] @ ''gdb' '-ex' 'set sysroot /' '' @ [squote, squote] @ '' 'a\<newline>b \"c\"' ''
   \<and> shell_tokenize (to_shell_string [''gdb'', ''-ex'', ''set sysroot /'', [], ''a\<newline>b \"c\"''])
     = Some [''gdb'', ''-ex'', ''set sysroot /'', [], ''a\<newline>b \"c\"'']"
proof -
  have q: "\<forall>a\<in>set [''gdb'', ''-ex'', ''set sysroot /'', [], ''a\<newline>b \"c\"'']. squote \<notin> set a"
    by (simp add: squote_def)
  show ?thesis
    using shell_quoting_round_trip [OF q]
    by (simp add: to_shell_string_concat squote_def)
qed

section \<open>C4: reading the parameters\<close>

lemma read_params_skip:
  "\<forall>j<k. nread (rd (i + j)) = - 1 \<and> errno (rd (i + j)) = EINTR \<Longrightarrow>
   read_params rd i = read_params rd (i + k)"
proof (induction k arbitrary: i)
  case 0
  then show ?case by simp
next
  case (Suc k)
  have here: "nread (rd i) = - 1 \<and> errno (rd i) = EINTR" using Suc.prems [rule_format, of 0] by simp
  have rest: "\<forall>j<k. nread (rd (Suc i + j)) = - 1 \<and> errno (rd (Suc i + j)) = EINTR"
    using Suc.prems [rule_format, of "Suc j" for j] by simp
  have "read_params rd i = read_params rd (Suc i)"
    using here by (subst read_params.simps) simp
  then show ?case using Suc.IH [OF rest] by simp
qed

lemma read_params_first:
  assumes "\<forall>j<k. nread (rd j) = - 1 \<and> errno (rd j) = EINTR"
    and "\<not> (nread (rd k) = - 1 \<and> errno (rd k) = EINTR)"
  shows "read_params rd 0 = Some (if nread (rd k) = 0 then Inl () else Inr (rd k))"
proof -
  have "read_params rd 0 = read_params rd (0 + k)"
    by (rule read_params_skip) (use assms(1) in simp)
  also have "\<dots> = Some (if nread (rd k) = 0 then Inl () else Inr (rd k))"
    using assms(2) by (subst read_params.simps) (auto simp: Let_def)
  finally show ?thesis .
qed

text \<open>The call once the command file is written in full.\<close>

lemma launch_debugger_written:
  assumes "write_result w = int (length (fst (gdb_rr_macros (gdb_macros w) (macros_s st))))"
  shows "launch_debugger w st path options serve =
     (case read_params (read_results w) 0 of
        None \<Rightarrow> None
      | Some (Inl _) \<Rightarrow> Some (Returned, snd (create_gdb_command_file w
            (st\<lparr>macros_s := snd (gdb_rr_macros (gdb_macros w) (macros_s st))\<rparr>)
            (fst (gdb_rr_macros (gdb_macros w) (macros_s st)))))
      | Some (Inr r) \<Rightarrow>
          Some (if nread r \<noteq> sizeof_params then Terminated ''nread == sizeof(params)''
                else if execvpe_succeeds w
                then Replaced path
                       (launch_args (buf r) path (procfile (pid w) (temp_fd w)) options serve)
                       (current_env w @ [''GDB_UNDER_RR=1''])
                else Terminated (''Failed to exec '' @ path @ ''.''),
                snd (create_gdb_command_file w
                  (st\<lparr>macros_s := snd (gdb_rr_macros (gdb_macros w) (macros_s st))\<rparr>)
                  (fst (gdb_rr_macros (gdb_macros w) (macros_s st))))))"
  using assms
  by (simp add: launch_debugger_def create_gdb_command_file_def DEBUG_ASSERT_def CLEAN_FATAL_def
      Let_def split: prod.splits option.splits sum.splits)

text \<open>
  C4. Let the \<open>k\<close>-th read be the first that is not interrupted (every earlier one
  returns -1 with \<^verbatim>\<open>EINTR\<close> and is retried), the command file being written in
  full. If it returns 0 the loop returns and \<^verbatim>\<open>launch_debugger\<close> returns to its
  caller: no error. If it returns exactly \<^verbatim>\<open>sizeof(params)\<close> the record read is the
  one the argument vector is built from and the call goes on to \<^verbatim>\<open>execvpe\<close>. Any
  other count, an error other than \<^verbatim>\<open>EINTR\<close> included, fails the assertion on the
  size and the process is terminated.
\<close>

theorem parameter_read_classification:
  assumes "\<forall>j<k. nread (read_results w j) = - 1 \<and> errno (read_results w j) = EINTR"
    and "\<not> (nread (read_results w k) = - 1 \<and> errno (read_results w k) = EINTR)"
    and "write_result w = int (length (fst (gdb_rr_macros (gdb_macros w) (macros_s st))))"
  shows "read_params (read_results w) 0
           = Some (if nread (read_results w k) = 0 then Inl () else Inr (read_results w k))
         \<and> map_option fst (launch_debugger w st path options serve)
           = Some (if nread (read_results w k) = 0 then Returned
                   else if nread (read_results w k) = sizeof_params
                   then (if execvpe_succeeds w
                         then Replaced path
                                (launch_args (buf (read_results w k)) path
                                   (procfile (pid w) (temp_fd w)) options serve)
                                (current_env w @ [''GDB_UNDER_RR=1''])
                         else Terminated (''Failed to exec '' @ path @ ''.''))
                   else Terminated ''nread == sizeof(params)'')"
proof -
  have r: "read_params (read_results w) 0
           = Some (if nread (read_results w k) = 0 then Inl () else Inr (read_results w k))"
    by (rule read_params_first [OF assms(1,2)])
  show ?thesis
    unfolding launch_debugger_written [OF assms(3)] r by simp
qed

theorem parameter_read_classification_witness:
  "map_option fst (launch_debugger
      \<lparr>gdb_macros = [], temp_fd = 7, pid = 4242, write_result = 6,
       read_results = (\<lambda>k. if k < 2
          then \<lparr>nread = - 1, errno = 4, buf = \<lparr>exe_image = [], host = [], port = 0\<rparr>\<rparr>
          else \<lparr>nread = 0, errno = 0, buf = \<lparr>exe_image = [], host = [], port = 0\<rparr>\<rparr>),
       current_env = [''HOME=/root''], execvpe_succeeds = True\<rparr>
      \<lparr>macros_s = ''cached'', fd_contents = (\<lambda>fd. None)\<rparr> ''gdb'' [] True) = Some Returned
   \<and> map_option fst (launch_debugger
      \<lparr>gdb_macros = [], temp_fd = 7, pid = 4242, write_result = 6,
       read_results = (\<lambda>k. if k < 2
          then \<lparr>nread = - 1, errno = 4, buf = \<lparr>exe_image = [], host = [], port = 0\<rparr>\<rparr>
          else \<lparr>nread = 4114, errno = 0,
                buf = \<lparr>exe_image = ''/bin/ls'' @ [NUL, CHR ''x''], host = ''127.0.0.1'' @ [NUL],
                       port = 9999\<rparr>\<rparr>),
       current_env = [''HOME=/root''], execvpe_succeeds = True\<rparr>
      \<lparr>macros_s = ''cached'', fd_contents = (\<lambda>fd. None)\<rparr> ''gdb'' [] True)
     = Some (Replaced ''gdb''
         [''gdb'', ''-l'', ''10000'', ''-x'', ''/proc/4242/fd/7'',
          ''-ex'', ''target extended-remote 127.0.0.1:9999'', ''/bin/ls'']
         [''HOME=/root'', ''GDB_UNDER_RR=1''])
   \<and> map_option fst (launch_debugger
      \<lparr>gdb_macros = [], temp_fd = 7, pid = 4242, write_result = 6,
       read_results = (\<lambda>k. \<lparr>nread = 100, errno = 0,
                buf = \<lparr>exe_image = ''/bin/ls'', host = [], port = 0\<rparr>\<rparr>),
       current_env = [''HOME=/root''], execvpe_succeeds = True\<rparr>
      \<lparr>macros_s = ''cached'', fd_contents = (\<lambda>fd. None)\<rparr> ''gdb'' [] True)
     = Some (Terminated ''nread == sizeof(params)'')"
proof -
  let ?st = "\<lparr>macros_s = ''cached'', fd_contents = (\<lambda>fd. None)\<rparr>"
  let ?closed = "\<lparr>gdb_macros = [], temp_fd = 7, pid = 4242, write_result = 6,
       read_results = (\<lambda>k. if k < 2
          then \<lparr>nread = - 1, errno = 4, buf = \<lparr>exe_image = [], host = [], port = 0\<rparr>\<rparr>
          else \<lparr>nread = 0, errno = 0, buf = \<lparr>exe_image = [], host = [], port = 0\<rparr>\<rparr>),
       current_env = [''HOME=/root''], execvpe_succeeds = True\<rparr>"
  let ?full = "\<lparr>gdb_macros = [], temp_fd = 7, pid = 4242, write_result = 6,
       read_results = (\<lambda>k. if k < 2
          then \<lparr>nread = - 1, errno = 4, buf = \<lparr>exe_image = [], host = [], port = 0\<rparr>\<rparr>
          else \<lparr>nread = 4114, errno = 0,
                buf = \<lparr>exe_image = ''/bin/ls'' @ [NUL, CHR ''x''], host = ''127.0.0.1'' @ [NUL],
                       port = 9999\<rparr>\<rparr>),
       current_env = [''HOME=/root''], execvpe_succeeds = True\<rparr>"
  let ?short = "\<lparr>gdb_macros = [], temp_fd = 7, pid = 4242, write_result = 6,
       read_results = (\<lambda>k. \<lparr>nread = 100, errno = 0,
                buf = \<lparr>exe_image = ''/bin/ls'', host = [], port = 0\<rparr>\<rparr>),
       current_env = [''HOME=/root''], execvpe_succeeds = True\<rparr>"
  have w1: "write_result ?closed = int (length (fst (gdb_rr_macros (gdb_macros ?closed) (macros_s ?st))))"
    and w2: "write_result ?full = int (length (fst (gdb_rr_macros (gdb_macros ?full) (macros_s ?st))))"
    and w3: "write_result ?short = int (length (fst (gdb_rr_macros (gdb_macros ?short) (macros_s ?st))))"
    by (simp_all add: gdb_rr_macros_def Let_def)
  have i1: "\<forall>j<2. nread (read_results ?closed j) = - 1 \<and> errno (read_results ?closed j) = EINTR"
    and i2: "\<forall>j<2. nread (read_results ?full j) = - 1 \<and> errno (read_results ?full j) = EINTR"
    and i3: "\<forall>j<0. nread (read_results ?short j) = - 1 \<and> errno (read_results ?short j) = EINTR"
    by (simp_all add: EINTR_def)
  have e1: "\<not> (nread (read_results ?closed 2) = - 1 \<and> errno (read_results ?closed 2) = EINTR)"
    and e2: "\<not> (nread (read_results ?full 2) = - 1 \<and> errno (read_results ?full 2) = EINTR)"
    and e3: "\<not> (nread (read_results ?short 0) = - 1 \<and> errno (read_results ?short 0) = EINTR)"
    by simp_all
  have "map_option fst (launch_debugger ?closed ?st ''gdb'' [] True) = Some Returned"
    using parameter_read_classification [OF i1 e1 w1, of "''gdb''" "[]" True] by simp
  moreover have "map_option fst (launch_debugger ?full ?st ''gdb'' [] True)
     = Some (Replaced ''gdb''
         [''gdb'', ''-l'', ''10000'', ''-x'', ''/proc/4242/fd/7'',
          ''-ex'', ''target extended-remote 127.0.0.1:9999'', ''/bin/ls'']
         [''HOME=/root'', ''GDB_UNDER_RR=1''])"
    using parameter_read_classification [OF i2 e2 w2, of "''gdb''" "[]" True]
    by (simp add: sizeof_params_def PATH_MAX_def run_simps)
  moreover have "map_option fst (launch_debugger ?short ?st ''gdb'' [] True)
     = Some (Terminated ''nread == sizeof(params)'')"
    using parameter_read_classification [OF i3 e3 w3, of "''gdb''" "[]" True]
    by (simp add: sizeof_params_def PATH_MAX_def)
  ultimately show ?thesis by (simp only: simp_thms)
qed

section \<open>C8: replacing the process\<close>

text \<open>
  C8. When \<^verbatim>\<open>launch_debugger\<close> has read a full record, the environment handed to
  \<^verbatim>\<open>execvpe\<close> is the inherited one with the single entry \<^verbatim>\<open>GDB_UNDER_RR=1\<close>
  appended. If \<^verbatim>\<open>execvpe\<close> succeeds the process image is replaced and the call does
  not return; if it fails the process is terminated with the diagnostic
  \<^verbatim>\<open>Failed to exec PATH.\<close>; in neither case does the call return to its caller.
\<close>

theorem process_replacement:
  assumes "write_result w = int (length (fst (gdb_rr_macros (gdb_macros w) (macros_s st))))"
    and "read_params (read_results w) 0 = Some (Inr r)"
    and "nread r = sizeof_params"
  shows "map_option fst (launch_debugger w st path options serve)
           = Some (if execvpe_succeeds w
                   then Replaced path
                          (launch_args (buf r) path (procfile (pid w) (temp_fd w)) options serve)
                          (current_env w @ [''GDB_UNDER_RR=1''])
                   else Terminated (''Failed to exec '' @ path @ ''.''))
         \<and> map_option fst (launch_debugger w st path options serve) \<noteq> Some Returned
         \<and> length (current_env w @ [''GDB_UNDER_RR=1'']) = length (current_env w) + 1"
  unfolding launch_debugger_written [OF assms(1)] assms(2) using assms(3) by simp

theorem process_replacement_witness:
  "map_option fst (launch_debugger
      \<lparr>gdb_macros = [], temp_fd = 7, pid = 4242, write_result = 6,
       read_results = (\<lambda>k. \<lparr>nread = 4114, errno = 0,
           buf = \<lparr>exe_image = ''/bin/ls'' @ [NUL], host = ''127.0.0.1'' @ [NUL], port = 9999\<rparr>\<rparr>),
       current_env = [''HOME=/root'', ''TERM=xterm''], execvpe_succeeds = True\<rparr>
      \<lparr>macros_s = ''cached'', fd_contents = (\<lambda>fd. None)\<rparr> ''gdb'' [''-q''] True)
     = Some (Replaced ''gdb''
         [''gdb'', ''-l'', ''10000'', ''-x'', ''/proc/4242/fd/7'', ''-q'',
          ''-ex'', ''target extended-remote 127.0.0.1:9999'', ''/bin/ls'']
         [''HOME=/root'', ''TERM=xterm'', ''GDB_UNDER_RR=1''])
   \<and> map_option fst (launch_debugger
      \<lparr>gdb_macros = [], temp_fd = 7, pid = 4242, write_result = 6,
       read_results = (\<lambda>k. \<lparr>nread = 4114, errno = 0,
           buf = \<lparr>exe_image = ''/bin/ls'' @ [NUL], host = ''127.0.0.1'' @ [NUL], port = 9999\<rparr>\<rparr>),
       current_env = [''HOME=/root'', ''TERM=xterm''], execvpe_succeeds = False\<rparr>
      \<lparr>macros_s = ''cached'', fd_contents = (\<lambda>fd. None)\<rparr> ''no-such-gdb'' [''-q''] True)
     = Some (Terminated ''Failed to exec no-such-gdb.'')"
proof -
  let ?st = "\<lparr>macros_s = ''cached'', fd_contents = (\<lambda>fd. None)\<rparr>"
  let ?r = "\<lparr>nread = 4114, errno = 0,
           buf = \<lparr>exe_image = ''/bin/ls'' @ [NUL], host = ''127.0.0.1'' @ [NUL], port = 9999\<rparr>\<rparr>"
  let ?ok = "\<lparr>gdb_macros = [], temp_fd = 7, pid = 4242, write_result = 6,
       read_results = (\<lambda>k. ?r),
       current_env = [''HOME=/root'', ''TERM=xterm''], execvpe_succeeds = True\<rparr>"
  let ?bad = "\<lparr>gdb_macros = [], temp_fd = 7, pid = 4242, write_result = 6,
       read_results = (\<lambda>k. ?r),
       current_env = [''HOME=/root'', ''TERM=xterm''], execvpe_succeeds = False\<rparr>"
  have w1: "write_result ?ok = int (length (fst (gdb_rr_macros (gdb_macros ?ok) (macros_s ?st))))"
    and w2: "write_result ?bad = int (length (fst (gdb_rr_macros (gdb_macros ?bad) (macros_s ?st))))"
    by (simp_all add: gdb_rr_macros_def Let_def)
  have r1: "read_params (read_results ?ok) 0 = Some (Inr ?r)"
    and r2: "read_params (read_results ?bad) 0 = Some (Inr ?r)"
    by (subst read_params.simps, simp)+
  have n: "nread ?r = sizeof_params"
    by (simp add: sizeof_params_def PATH_MAX_def)
  have "map_option fst (launch_debugger ?ok ?st ''gdb'' [''-q''] True)
     = Some (Replaced ''gdb''
         [''gdb'', ''-l'', ''10000'', ''-x'', ''/proc/4242/fd/7'', ''-q'',
          ''-ex'', ''target extended-remote 127.0.0.1:9999'', ''/bin/ls'']
         [''HOME=/root'', ''TERM=xterm'', ''GDB_UNDER_RR=1''])"
    using process_replacement [OF w1 r1 n, of "''gdb''" "[''-q'']" True]
    by (simp add: run_simps)
  moreover have "map_option fst (launch_debugger ?bad ?st ''no-such-gdb'' [''-q''] True)
     = Some (Terminated ''Failed to exec no-such-gdb.'')"
    using process_replacement [OF w2 r2 n, of "''no-such-gdb''" "[''-q'']" True]
    by simp
  ultimately show ?thesis by (simp only: simp_thms)
qed

section \<open>C10: the init script is the command file's text\<close>








end
